theory Spec2Isabelle
  imports Complex_Main "HOL-Library.Sublist" "HOL-Library.Stream"
begin

section \<open>Python values\<close>

text \<open>
  The values that cross the HTTP and LLM boundaries are JSON documents as Python's
  \<^verbatim>\<open>json.loads\<close> builds them. A \<^verbatim>\<open>dict\<close> is an association list whose keys are
  distinct (lookup is \<open>map_of\<close>); a \<^verbatim>\<open>float\<close> is kept by its rational value.
  Strings are lists of code points below 256.
\<close>

datatype json =
    JNull
  | JBool bool
  | JInt int
  | JFloat rat
  | JStr string
  | JArr "json list"
  | JObj "(string \<times> json) list"

text \<open>The exceptions the modelled code can raise.\<close>

datatype py_exception =
    AttributeError
  | TypeError
  | IndexError
  | ValueError
  | JSONDecodeError
  | APIError string
  | DBError string

text \<open>Python truthiness of a JSON value (\<^verbatim>\<open>if v:\<close>, \<^verbatim>\<open>a and v\<close>).\<close>

fun truthy :: "json \<Rightarrow> bool" where
  "truthy JNull = False"
| "truthy (JBool b) = b"
| "truthy (JInt i) = (i \<noteq> 0)"
| "truthy (JFloat r) = (r \<noteq> 0)"
| "truthy (JStr s) = (s \<noteq> [])"
| "truthy (JArr xs) = (xs \<noteq> [])"
| "truthy (JObj kvs) = (kvs \<noteq> [])"

text \<open>
  \<^verbatim>\<open>d.get(k, default)\<close>: only a dict has the method; on any other value the attribute
  lookup raises.
\<close>

fun py_get :: "json \<Rightarrow> string \<Rightarrow> json \<Rightarrow> py_exception + json" where
  "py_get (JObj kvs) k dflt = Inr (case map_of kvs k of None \<Rightarrow> dflt | Some v \<Rightarrow> v)"
| "py_get _ k dflt = Inl AttributeError"

text \<open>Reading a key of a returned dict (\<open>None\<close> when the value is no dict or lacks the key).\<close>

fun field :: "json \<Rightarrow> string \<Rightarrow> json option" where
  "field (JObj kvs) k = map_of kvs k"
| "field _ k = None"

text \<open>\<^verbatim>\<open>x in s\<close> on strings is the contiguous-substring test.\<close>

definition str_in :: "string \<Rightarrow> string \<Rightarrow> bool" where
  "str_in x s = sublist x s"

text \<open>
  \<^verbatim>\<open>str.lower()\<close> on code points below 256: the upper-case letters are
  \<^verbatim>\<open>A\<close>..\<^verbatim>\<open>Z\<close> (65..90) and 192..222 except the multiplication sign 215, each 32 below its
  lower-case form.
\<close>

definition lower_char :: "char \<Rightarrow> char" where
  "lower_char c =
     (let n = (of_char c :: nat)
      in if (65 \<le> n \<and> n \<le> 90) \<or> (192 \<le> n \<and> n \<le> 222 \<and> n \<noteq> 215)
         then char_of (n + 32) else c)"

definition lower :: "string \<Rightarrow> string" where
  "lower s = map lower_char s"

text \<open>\<^verbatim>\<open>any(x in s for x in xs)\<close>.\<close>

definition any_in :: "string list \<Rightarrow> string \<Rightarrow> bool" where
  "any_in xs s = list_ex (\<lambda>x. str_in x s) xs"

section \<open>The AI analysis service (services/ai_analysis_service.py)\<close>

text \<open>
  The hosted LLM is outside the program. A configured client is a function from the
  request to either an exception or the response; of the response the code reads
  \<^verbatim>\<open>choices[0].message.content\<close>, so a response is the list of its choices' contents
  (\<open>None\<close> for a null content). The prompt is kept as the values the f-string
  interpolates into its fixed template.
\<close>

datatype prompt =
    PostPrompt string string
  | ProfilePrompt string string string json json json

record chat_request =
  req_model :: string
  req_prompt :: prompt

type_synonym chat_response = "string option list"

record ai_service =
  client :: "(chat_request \<Rightarrow> py_exception + chat_response) option"
  model :: string

text \<open>
  The body shared by both \<^verbatim>\<open>try\<close> blocks: the API call, then
  \<^verbatim>\<open>json.loads(response.choices[0].message.content)\<close>. \<^verbatim>\<open>json.loads\<close> is the library
  parser, a parameter here (\<open>None\<close> when it raises).
\<close>

definition llm_json ::
  "(string \<Rightarrow> json option) \<Rightarrow> (chat_request \<Rightarrow> py_exception + chat_response) \<Rightarrow>
   chat_request \<Rightarrow> py_exception + json" where
  "llm_json json_loads create req =
     (case create req of
        Inl e \<Rightarrow> Inl e
      | Inr response \<Rightarrow>
          (case response of
             [] \<Rightarrow> Inl IndexError
           | content # _ \<Rightarrow>
               (case content of
                  None \<Rightarrow> Inl TypeError
                | Some s \<Rightarrow>
                    (case json_loads s of
                       None \<Rightarrow> Inl JSONDecodeError
                     | Some result \<Rightarrow> Inr result))))"

definition analyze_post_content ::
  "ai_service \<Rightarrow> (string \<Rightarrow> json option) \<Rightarrow> string \<Rightarrow> string \<Rightarrow> py_exception + json" where
  "analyze_post_content self json_loads post_text customer_product =
     (case client self of
        None \<Rightarrow>
          Inr (JObj [(''intent'', JStr ''unknown''), (''topics'', JArr []),
                     (''relevance_score'', JInt 50)])
      | Some create \<Rightarrow>
          (let prompt = PostPrompt post_text
                 (if customer_product \<noteq> [] then customer_product else ''General B2B SaaS'')
           in case llm_json json_loads create
                     \<lparr>req_model = model self, req_prompt = prompt\<rparr> of
                Inr result \<Rightarrow> Inr result
              | Inl e \<Rightarrow>
                  Inr (JObj [(''intent'', JStr ''unknown''), (''topics'', JArr []),
                             (''relevance_score'', JInt 50), (''summary'', JStr '''')])))"

definition fallback_evaluation :: "string \<Rightarrow> json" where
  "fallback_evaluation headline =
     (let seniority =
            (if any_in [''CEO'', ''Founder'', ''President''] headline then ''C-level''
             else if any_in [''VP'', ''Vice President''] headline then ''VP''
             else if str_in ''Director'' headline then ''Director''
             else if str_in ''Manager'' headline then ''Manager''
             else ''IC'');
          excluded = any_in [''student'', ''recruiter'', ''intern''] (lower headline)
      in JObj
        [(''profile_type'',
            JStr (if str_in ''Company'' headline \<or> str_in ''Ltd'' headline
                  then ''company'' else ''individual'')),
         (''role_category'', JStr (if excluded then ''irrelevant'' else ''influencer'')),
         (''seniority_level'', JStr seniority),
         (''industry_match'', JBool False),
         (''intent_from_comment'', JStr ''medium''),
         (''persona_fit_score'', JInt (if excluded then 0 else 50)),
         (''reasoning'', JStr ''Fallback evaluation (AI unavailable)'')])"

text \<open>
  \<^verbatim>\<open>persona_definition\<close> is a dict (its annotated type), so the three
  \<^verbatim>\<open>.get(key, [])\<close> calls that build the prompt outside the \<^verbatim>\<open>try\<close> block cannot raise.
\<close>

definition persona_get :: "(string \<times> json) list \<Rightarrow> string \<Rightarrow> json" where
  "persona_get persona_definition k =
     (case map_of persona_definition k of None \<Rightarrow> JArr [] | Some v \<Rightarrow> v)"

definition evaluate_profile ::
  "ai_service \<Rightarrow> (string \<Rightarrow> json option) \<Rightarrow> string \<Rightarrow> string \<Rightarrow> string \<Rightarrow>
   (string \<times> json) list \<Rightarrow> py_exception + json" where
  "evaluate_profile self json_loads name headline comment_text persona_definition =
     (case client self of
        None \<Rightarrow> Inr (fallback_evaluation headline)
      | Some create \<Rightarrow>
          (let prompt = ProfilePrompt name headline comment_text
                 (persona_get persona_definition ''industries'')
                 (persona_get persona_definition ''job_titles'')
                 (persona_get persona_definition ''seniority'')
           in case llm_json json_loads create
                     \<lparr>req_model = model self, req_prompt = prompt\<rparr> of
                Inr result \<Rightarrow> Inr result
              | Inl e \<Rightarrow> Inr (fallback_evaluation headline)))"

section \<open>The webhook handlers (api/apify.py, api/analysis.py)\<close>

text \<open>
  \<^verbatim>\<open>background_tasks.add_task(f, dataset_id, run_id)\<close> appends a call to the tasks that
  run after the response is sent; the state of a handler is that list. The two handlers
  differ only in the function they schedule.
\<close>

datatype background_task =
    Process_apify_dataset json json
  | Process_webhook json json

definition webhook_body ::
  "(json \<Rightarrow> json \<Rightarrow> background_task) \<Rightarrow> json \<Rightarrow> background_task list \<Rightarrow>
   py_exception + json \<times> background_task list" where
  "webhook_body task payload background_tasks =
     (case py_get payload ''eventType'' JNull of
        Inl e \<Rightarrow> Inl e
      | Inr event_type \<Rightarrow>
     (case py_get payload ''resource'' (JObj []) of
        Inl e \<Rightarrow> Inl e
      | Inr resource \<Rightarrow>
     (case py_get resource ''id'' JNull of
        Inl e \<Rightarrow> Inl e
      | Inr run_id \<Rightarrow>
     (case py_get resource ''defaultDatasetId'' JNull of
        Inl e \<Rightarrow> Inl e
      | Inr dataset_id \<Rightarrow>
          Inr (JObj [(''status'', JStr ''received'')],
               if event_type = JStr ''ACTOR.RUN.SUCCEEDED'' \<and> truthy dataset_id
               then background_tasks @ [task dataset_id run_id]
               else background_tasks)))))"

definition apify_webhook ::
  "json \<Rightarrow> background_task list \<Rightarrow> py_exception + json \<times> background_task list" where
  "apify_webhook payload background_tasks =
     webhook_body Process_apify_dataset payload background_tasks"

definition analysis_webhook ::
  "json \<Rightarrow> background_task list \<Rightarrow> py_exception + json \<times> background_task list" where
  "analysis_webhook payload background_tasks =
     webhook_body Process_webhook payload background_tasks"

section \<open>The campaign repository (repositories/campaign_repo.py)\<close>

text \<open>
  A UUID is its 128-bit value; a \<^verbatim>\<open>datetime\<close> is its number of microseconds since the
  epoch. Both are always truthy in Python, so \<^verbatim>\<open>not x\<close> on an optional one tests for
  \<^verbatim>\<open>None\<close>.
\<close>

datatype uuid = UUID nat

type_synonym datetime = int

text \<open>
  The \<^verbatim>\<open>Campaign\<close> model (models/campaign.py) is not among the sources: the record has
  the columns that campaign_repo.py reads and writes, and every function below works on any
  extension of it.
\<close>

record campaign =
  campaign_org_id :: uuid
  campaign_type :: string
  campaign_status :: string
  leads_count :: int
  qualified_leads_count :: int
  contacted_count :: int
  replied_count :: int
  started_at :: "datetime option"
  paused_at :: "datetime option"
  last_resumed_at :: "datetime option"
  completed_at :: "datetime option"
  campaign_updated_at :: datetime

text \<open>
  The repository's world: the campaign table, a row per primary key, and the clock, the
  stream of the values that successive \<^verbatim>\<open>datetime.utcnow()\<close> calls return.
\<close>

record 'c repository =
  campaigns :: "uuid \<rightharpoonup> 'c"
  clock :: "datetime stream"

definition utcnow :: "'c repository \<Rightarrow> datetime \<times> 'c repository" where
  "utcnow s = (shd (clock s), s\<lparr>clock := stl (clock s)\<rparr>)"

text \<open>
  Modelled from the spec: \<^verbatim>\<open>BaseRepository.get\<close> (repositories/base.py, not among the
  sources) is one of the "repository objects wrapping parameterized queries": the lookup of
  a row by its primary key, \<open>None\<close> when there is none.
\<close>

definition get :: "'c repository \<Rightarrow> uuid \<Rightarrow> 'c option" where
  "get s campaign_id = campaigns s campaign_id"

text \<open>\<^verbatim>\<open>session.add\<close>, \<^verbatim>\<open>commit\<close> and \<^verbatim>\<open>refresh\<close>: the row is written back under its key.\<close>

definition commit :: "uuid \<Rightarrow> 'c \<Rightarrow> 'c repository \<Rightarrow> 'c repository" where
  "commit campaign_id c s = s\<lparr>campaigns := (campaigns s)(campaign_id \<mapsto> c)\<rparr>"

definition update_status ::
  "uuid \<Rightarrow> string \<Rightarrow> 'a campaign_scheme repository \<Rightarrow>
   'a campaign_scheme option \<times> 'a campaign_scheme repository" where
  "update_status campaign_id status s =
     (case get s campaign_id of
        None \<Rightarrow> (None, s)
      | Some campaign \<Rightarrow>
          (let campaign = campaign\<lparr>campaign_status := status\<rparr>;
               (now, s) = utcnow s;
               campaign = campaign\<lparr>campaign_updated_at := now\<rparr>;
               (campaign, s) =
                 (if status = ''active'' then
                    (let (campaign, s) =
                           (if started_at campaign = None
                            then (let (now, s) = utcnow s
                                  in (campaign\<lparr>started_at := Some now\<rparr>, s))
                            else (campaign, s));
                         campaign = campaign\<lparr>paused_at := None\<rparr>;
                         (now, s) = utcnow s
                     in (campaign\<lparr>last_resumed_at := Some now\<rparr>, s))
                  else if status = ''paused'' then
                    (let (now, s) = utcnow s in (campaign\<lparr>paused_at := Some now\<rparr>, s))
                  else if status = ''completed'' then
                    (let (now, s) = utcnow s in (campaign\<lparr>completed_at := Some now\<rparr>, s))
                  else (campaign, s))
           in (Some campaign, commit campaign_id campaign s)))"

section \<open>The relational model (models/post_analysis.py)\<close>

record linkedin_post =
  post_id :: uuid
  post_url :: string
  author_name :: "string option"
  post_content :: "string option"
  posted_at :: "datetime option"
  post_status :: string
  apify_run_id :: "string option"
  post_intent :: "string option"
  total_comments :: int
  total_likes :: int
  post_ai_insights :: json
  post_org_id :: uuid
  persona_id :: "uuid option"
  post_created_at :: datetime
  post_updated_at :: datetime

record post_interaction =
  interaction_id :: uuid
  interaction_post_id :: uuid
  interaction_type :: string
  content :: "string option"
  reacted_at :: "datetime option"
  actor_name :: "string option"
  actor_profile_url :: "string option"
  actor_headline :: "string option"
  actor_urn :: "string option"
  relevance_score :: int
  classification :: string
  profile_type :: "string option"
  seniority_level :: "string option"
  role_category :: "string option"
  interaction_ai_insights :: json
  lead_id :: "uuid option"

text \<open>
  Of the \<^verbatim>\<open>Lead\<close> model (models/lead.py, not among the sources) the code uses the primary
  key only.
\<close>

record lead =
  lead_pk :: uuid

text \<open>The tables, each a list of rows in storage order.\<close>

record database =
  linkedin_post_table :: "linkedin_post list"
  post_interaction_table :: "post_interaction list"
  lead_table :: "lead list"

section \<open>The analysis endpoints (api/analysis.py)\<close>

text \<open>
  An \<^verbatim>\<open>HTTPException\<close> carries a status code and a detail: a literal text,
  \<^verbatim>\<open>str(e)\<close> of the exception caught, or the framework's list of validation errors.
\<close>

datatype http_detail = Text string | Str py_exception | Validation_errors

datatype http_exception = HTTPException (status_code: nat) (detail: http_detail)

subsection \<open>\<^verbatim>\<open>start_analysis\<close>\<close>

record analyze_request =
  post_urls :: "string list"
  req_org_id :: string
  req_persona_id :: "string option"

record 'i started =
  resp_status :: string
  resp_count :: nat
  resp_ids :: "'i list"

text \<open>
  \<^verbatim>\<open>uuid.UUID\<close> is the library parser (\<open>None\<close> when it raises \<^verbatim>\<open>ValueError\<close>), and
  \<^verbatim>\<open>analysis_service.analyze_posts\<close> (services/analysis_service.py) is not among the
  sources: both are parameters. The service works on a state of its own and either raises
  or returns the ids it started.
\<close>

definition start_analysis ::
  "(string \<Rightarrow> uuid option) \<Rightarrow>
   (string list \<Rightarrow> uuid \<Rightarrow> uuid option \<Rightarrow> 's \<Rightarrow> (py_exception + 'i list) \<times> 's) \<Rightarrow>
   analyze_request \<Rightarrow> 's \<Rightarrow> (http_exception + 'i started) \<times> 's" where
  "start_analysis uuid_UUID analyze_posts request s =
     (if length (post_urls request) > 10
      then (Inl (HTTPException 400 (Text ''Max 10 URLs allowed per batch'')), s)
      else
        (case uuid_UUID (req_org_id request) of
           None \<Rightarrow> (Inl (HTTPException 500 (Str ValueError)), s)
         | Some org_uuid \<Rightarrow>
             (case (case req_persona_id request of
                      None \<Rightarrow> Some None
                    | Some p \<Rightarrow> if p \<noteq> [] then map_option Some (uuid_UUID p) else Some None) of
                None \<Rightarrow> (Inl (HTTPException 500 (Str ValueError)), s)
              | Some persona_uuid \<Rightarrow>
                  (case analyze_posts (post_urls request) org_uuid persona_uuid s of
                     (Inl e, s') \<Rightarrow> (Inl (HTTPException 500 (Str e)), s')
                   | (Inr started_ids, s') \<Rightarrow>
                       (Inr \<lparr>resp_status = ''started'',
                             resp_count = length started_ids,
                             resp_ids = started_ids\<rparr>, s')))))"

subsection \<open>\<^verbatim>\<open>get_analysis_results\<close>\<close>

text \<open>
  The response keeps a UUID and a timestamp as values where the code renders them with
  \<^verbatim>\<open>str\<close> and \<^verbatim>\<open>isoformat\<close>.
\<close>

record post_view =
  view_id :: uuid
  view_url :: string
  view_content :: string
  view_author :: "string option"
  view_status :: string
  view_intent :: "string option"
  view_ai_insights :: json
  view_total_comments :: int
  view_total_likes :: int
  view_created_at :: "datetime option"

record interaction_view =
  iview_id :: uuid
  iview_type :: string
  iview_actor_name :: "string option"
  iview_actor_headline :: "string option"
  iview_classification :: string
  iview_score :: int
  iview_profile_type :: "string option"
  iview_seniority :: "string option"
  iview_lead_id :: "uuid option"

record result_entry =
  entry_post :: post_view
  entry_interactions :: "interaction_view list"
  leads_created :: nat
  high_value_count :: nat

record results_response =
  resp_total :: nat
  resp_results :: "result_entry list"

text \<open>
  \<^verbatim>\<open>ORDER BY column DESC\<close>: SQL leaves the order of rows with equal keys open; the model
  keeps them in storage order.
\<close>

definition order_by_desc :: "('r \<Rightarrow> int) \<Rightarrow> 'r list \<Rightarrow> 'r list" where
  "order_by_desc column rows = sort_key (\<lambda>r. - column r) rows"

text \<open>
  The posts query. \<^verbatim>\<open>if status:\<close> adds the status condition for a non-empty string only.
  PostgreSQL (the dialect of the JSONB columns) rejects a negative \<^verbatim>\<open>LIMIT\<close>.
\<close>

definition select_posts ::
  "database \<Rightarrow> uuid \<Rightarrow> string option \<Rightarrow> int \<Rightarrow> py_exception + linkedin_post list" where
  "select_posts db org_uuid status limit =
     (let statement = filter (\<lambda>p. post_org_id p = org_uuid) (linkedin_post_table db);
          statement = (case status of
                         None \<Rightarrow> statement
                       | Some st \<Rightarrow> if st \<noteq> [] then filter (\<lambda>p. post_status p = st) statement
                                   else statement);
          statement = order_by_desc post_created_at statement
      in if limit < 0 then Inl (DBError ''LIMIT must not be negative'')
         else Inr (take (nat limit) statement))"

definition select_interactions :: "database \<Rightarrow> linkedin_post \<Rightarrow> post_interaction list" where
  "select_interactions db post =
     order_by_desc relevance_score
       (filter (\<lambda>i. interaction_post_id i = post_id post) (post_interaction_table db))"

definition interaction_row :: "post_interaction \<Rightarrow> interaction_view" where
  "interaction_row i =
     \<lparr>iview_id = interaction_id i,
      iview_type = interaction_type i,
      iview_actor_name = actor_name i,
      iview_actor_headline = actor_headline i,
      iview_classification = classification i,
      iview_score = relevance_score i,
      iview_profile_type = profile_type i,
      iview_seniority = seniority_level i,
      iview_lead_id = lead_id i\<rparr>"

text \<open>
  The body of the loop over the posts. The leads are fetched and not used in the entry.
\<close>

definition result_for :: "database \<Rightarrow> linkedin_post \<Rightarrow> result_entry" where
  "result_for db post =
     (let interactions = select_interactions db post;
          lead_ids = map the (filter (\<lambda>l. l \<noteq> None) (map lead_id interactions));
          leads = (if lead_ids \<noteq> []
                   then filter (\<lambda>l. lead_pk l \<in> set lead_ids) (lead_table db) else [])
      in \<lparr>entry_post =
            \<lparr>view_id = post_id post,
             view_url = post_url post,
             view_content = (case post_content post of None \<Rightarrow> [] | Some c \<Rightarrow> take 200 c),
             view_author = author_name post,
             view_status = post_status post,
             view_intent = post_intent post,
             view_ai_insights = post_ai_insights post,
             view_total_comments = total_comments post,
             view_total_likes = total_likes post,
             view_created_at = Some (post_created_at post)\<rparr>,
          entry_interactions = map interaction_row interactions,
          leads_created = length (filter (\<lambda>i. lead_id i \<noteq> None) interactions),
          high_value_count = length (filter (\<lambda>i. classification i = ''high'') interactions)\<rparr>)"

text \<open>
  The endpoint. \<^verbatim>\<open>limit\<close> is the query parameter \<^verbatim>\<open>Query(20, le=100)\<close>: 20 when
  absent, and the framework answers 422 without calling the handler when it exceeds 100.
  Every exception inside the handler becomes a 500.
\<close>

definition get_analysis_results ::
  "(string \<Rightarrow> uuid option) \<Rightarrow> database \<Rightarrow> string \<Rightarrow> int option \<Rightarrow> string option \<Rightarrow>
   http_exception + results_response" where
  "get_analysis_results uuid_UUID db org_id limit_param status =
     (let limit = (case limit_param of None \<Rightarrow> 20 | Some l \<Rightarrow> l)
      in if limit > 100 then Inl (HTTPException 422 Validation_errors)
         else
           (case uuid_UUID org_id of
              None \<Rightarrow> Inl (HTTPException 500 (Str ValueError))
            | Some org_uuid \<Rightarrow>
                (case select_posts db org_uuid status limit of
                   Inl e \<Rightarrow> Inl (HTTPException 500 (Str e))
                 | Inr posts \<Rightarrow>
                     (let results = map (result_for db) posts
                      in Inr \<lparr>resp_total = length results, resp_results = results\<rparr>))))"

section \<open>Persistence of a scored interaction\<close>

text \<open>
  Modelled from the spec: the persistence step of \<^verbatim>\<open>analysis_service.process_webhook\<close>
  (services/analysis_service.py) is not among the sources. The spec has the scored
  interaction persisted idempotently by an "upsert into relational tables": a row whose key
  is already in the table replaces the stored row, any other row is added to the table.
  The key is the table's unique constraint, a parameter here.
\<close>

definition upsert :: "('r \<Rightarrow> 'k) \<Rightarrow> 'r \<Rightarrow> 'r list \<Rightarrow> 'r list" where
  "upsert key row table =
     (if list_ex (\<lambda>r. key r = key row) table
      then map (\<lambda>r. if key r = key row then row else r) table
      else table @ [row])"

section \<open>Example data\<close>

definition example_uuid :: "string \<Rightarrow> uuid option" where
  "example_uuid text =
     (if text = ''00000000-0000-0000-0000-000000000007'' then Some (UUID 7)
      else if text = ''00000000-0000-0000-0000-000000000008'' then Some (UUID 8)
      else None)"

definition example_post :: "nat \<Rightarrow> uuid \<Rightarrow> string \<Rightarrow> datetime \<Rightarrow> linkedin_post" where
  "example_post n org st created =
     \<lparr>post_id = UUID n, post_url = ''https://www.linkedin.com/posts/example'',
      author_name = Some ''Ann'', post_content = Some ''Which CRM do you use?'',
      posted_at = None, post_status = st, apify_run_id = None, post_intent = None,
      total_comments = 0, total_likes = 0, post_ai_insights = JObj [],
      post_org_id = org, persona_id = None, post_created_at = created,
      post_updated_at = created\<rparr>"

definition example_interaction ::
  "nat \<Rightarrow> nat \<Rightarrow> int \<Rightarrow> string \<Rightarrow> uuid option \<Rightarrow> post_interaction" where
  "example_interaction n post score class lead =
     \<lparr>interaction_id = UUID n, interaction_post_id = UUID post, interaction_type = ''COMMENT'',
      content = Some ''Interested'', reacted_at = None, actor_name = Some ''Bob'',
      actor_profile_url = None, actor_headline = Some ''VP Sales'', actor_urn = None,
      relevance_score = score, classification = class, profile_type = None,
      seniority_level = None, role_category = None, interaction_ai_insights = JObj [],
      lead_id = lead\<rparr>"

definition example_db :: database where
  "example_db =
     \<lparr>linkedin_post_table =
        [example_post 10 (UUID 7) ''pending'' 100,
         example_post 11 (UUID 7) ''completed'' 200,
         example_post 12 (UUID 8) ''completed'' 300],
      post_interaction_table =
        [example_interaction 20 11 40 ''low'' None,
         example_interaction 21 11 90 ''high'' (Some (UUID 30)),
         example_interaction 22 10 70 ''high'' None],
      lead_table = [\<lparr>lead_pk = UUID 30\<rparr>]\<rparr>"

text \<open>
  A parser that reads two response texts as \<^verbatim>\<open>json.loads\<close> does, the JSON objects
  whose one key is \<^verbatim>\<open>persona_fit_score\<close> with the values 10 and 90, and rejects any
  other text.
\<close>

definition score_document :: "string \<Rightarrow> string" where
  "score_document digits =
     ''{'' @ [CHR 0x22] @ ''persona_fit_score'' @ [CHR 0x22] @ '': '' @ digits @ ''}''"

definition example_json_loads :: "string \<Rightarrow> json option" where
  "example_json_loads s =
     (if s = score_document ''10'' then Some (JObj [(''persona_fit_score'', JInt 10)])
      else if s = score_document ''90'' then Some (JObj [(''persona_fit_score'', JInt 90)])
      else None)"

text \<open>The entry of a returned dict, when the call returned one.\<close>

definition result_field :: "py_exception + json \<Rightarrow> string \<Rightarrow> json option" where
  "result_field r k = (case r of Inl e \<Rightarrow> None | Inr j \<Rightarrow> field j k)"

section \<open>Properties of the AI analysis service\<close>

lemma llm_json_fails_iff:
  "(\<exists>e. llm_json json_loads create req = Inl e) \<longleftrightarrow>
     (\<exists>e. create req = Inl e) \<or> create req = Inr [] \<or>
     (\<exists>rest. create req = Inr (None # rest)) \<or>
     (\<exists>s rest. create req = Inr (Some s # rest) \<and> json_loads s = None)"
  by (auto simp: llm_json_def split: sum.splits list.splits option.splits)

lemma evaluate_profile_unconfigured:
  "client self = None \<Longrightarrow>
   evaluate_profile self json_loads name headline comment_text persona_definition =
     Inr (fallback_evaluation headline)"
  by (simp add: evaluate_profile_def)

lemma evaluate_profile_on_failure:
  "client self = Some create \<Longrightarrow>
   llm_json json_loads create
     \<lparr>req_model = model self,
      req_prompt = ProfilePrompt name headline comment_text
        (persona_get persona_definition ''industries'')
        (persona_get persona_definition ''job_titles'')
        (persona_get persona_definition ''seniority'')\<rparr> = Inl e \<Longrightarrow>
   evaluate_profile self json_loads name headline comment_text persona_definition =
     Inr (fallback_evaluation headline)"
  by (simp add: evaluate_profile_def)

lemma evaluate_profile_returns:
  "\<exists>r. evaluate_profile self json_loads name headline comment_text persona_definition = Inr r"
  by (simp add: evaluate_profile_def split: option.splits sum.splits)

text \<open>
  C3. \<^verbatim>\<open>evaluate_profile\<close> never raises, on any name, headline, comment text and persona
  dict: it always returns a value. When the client is not configured the value is
  \<^verbatim>\<open>_fallback_evaluation(headline)\<close>; the same holds whenever the client is configured and
  the \<^verbatim>\<open>try\<close> block fails, that is the API call raises, or the response has no choice, or
  the first choice has no content, or \<^verbatim>\<open>json.loads\<close> rejects the content.
\<close>

theorem evaluate_profile_never_raises:
  fixes self :: ai_service
  defines "req name headline comment_text persona_definition \<equiv>
     \<lparr>req_model = model self,
      req_prompt = ProfilePrompt name headline comment_text
        (persona_get persona_definition ''industries'')
        (persona_get persona_definition ''job_titles'')
        (persona_get persona_definition ''seniority'')\<rparr>"
  shows
  "(\<exists>r. evaluate_profile self json_loads name headline comment_text persona_definition = Inr r)
   \<and> (client self = None \<longrightarrow>
        evaluate_profile self json_loads name headline comment_text persona_definition =
          Inr (fallback_evaluation headline))
   \<and> (\<forall>create. client self = Some create \<and>
        ((\<exists>e. create (req name headline comment_text persona_definition) = Inl e)
         \<or> create (req name headline comment_text persona_definition) = Inr []
         \<or> (\<exists>rest. create (req name headline comment_text persona_definition) = Inr (None # rest))
         \<or> (\<exists>s rest. create (req name headline comment_text persona_definition) = Inr (Some s # rest)
               \<and> json_loads s = None)) \<longrightarrow>
        evaluate_profile self json_loads name headline comment_text persona_definition =
          Inr (fallback_evaluation headline))"
proof (intro conjI allI impI)
  show "\<exists>r. evaluate_profile self json_loads name headline comment_text persona_definition = Inr r"
    by (rule evaluate_profile_returns)
next
  assume "client self = None"
  then show "evaluate_profile self json_loads name headline comment_text persona_definition =
      Inr (fallback_evaluation headline)"
    by (rule evaluate_profile_unconfigured)
next
  fix create
  assume a: "client self = Some create \<and>
        ((\<exists>e. create (req name headline comment_text persona_definition) = Inl e)
         \<or> create (req name headline comment_text persona_definition) = Inr []
         \<or> (\<exists>rest. create (req name headline comment_text persona_definition) = Inr (None # rest))
         \<or> (\<exists>s rest. create (req name headline comment_text persona_definition) = Inr (Some s # rest)
               \<and> json_loads s = None))"
  then have "\<exists>e. llm_json json_loads create (req name headline comment_text persona_definition) = Inl e"
    by (simp only: llm_json_fails_iff)
  then obtain e where
    "llm_json json_loads create (req name headline comment_text persona_definition) = Inl e" ..
  with a show "evaluate_profile self json_loads name headline comment_text persona_definition =
      Inr (fallback_evaluation headline)"
    unfolding req_def by (intro evaluate_profile_on_failure [where e = e and create = create]) simp_all
qed

theorem evaluate_profile_never_raises_witness:
  "evaluate_profile \<lparr>client = Some (\<lambda>r. Inr [Some ''{not json'']), model = ''gpt-4o''\<rparr>
     (\<lambda>s. None) ''Ann'' ''Director of Sales'' ''Interested!'' [(''industries'', JArr [JStr ''SaaS''])]
   = Inr (fallback_evaluation ''Director of Sales'')"
  by (rule evaluate_profile_never_raises [THEN conjunct2, THEN conjunct2,
        THEN spec [where x = "\<lambda>r. Inr [Some ''{not json'']"], THEN mp])
     simp

text \<open>
  C4. The keyword fallback assigns \<^verbatim>\<open>seniority_level\<close> by the first match in the order
  C-level (CEO, Founder, President), VP (VP, Vice President), Director, Manager, else IC;
  a lower-cased headline containing student, recruiter or intern gives
  \<^verbatim>\<open>role_category\<close> irrelevant with \<^verbatim>\<open>persona_fit_score\<close> 0, any other headline
  influencer with 50.
\<close>

theorem fallback_evaluation_keyword_rules:
  "field (fallback_evaluation headline) ''seniority_level'' =
     Some (JStr
       (if str_in ''CEO'' headline \<or> str_in ''Founder'' headline \<or> str_in ''President'' headline
        then ''C-level''
        else if str_in ''VP'' headline \<or> str_in ''Vice President'' headline then ''VP''
        else if str_in ''Director'' headline then ''Director''
        else if str_in ''Manager'' headline then ''Manager''
        else ''IC''))
   \<and> (if str_in ''student'' (lower headline) \<or> str_in ''recruiter'' (lower headline)
          \<or> str_in ''intern'' (lower headline)
       then field (fallback_evaluation headline) ''role_category'' = Some (JStr ''irrelevant'')
          \<and> field (fallback_evaluation headline) ''persona_fit_score'' = Some (JInt 0)
       else field (fallback_evaluation headline) ''role_category'' = Some (JStr ''influencer'')
          \<and> field (fallback_evaluation headline) ''persona_fit_score'' = Some (JInt 50))"
  by (simp add: fallback_evaluation_def any_in_def Let_def)

theorem fallback_evaluation_keyword_rules_witness:
  "field (fallback_evaluation ''VP of Sales, ex-Intern'') ''seniority_level'' = Some (JStr ''VP'')
   \<and> field (fallback_evaluation ''VP of Sales, ex-Intern'') ''role_category'' =
       Some (JStr ''irrelevant'')
   \<and> field (fallback_evaluation ''VP of Sales, ex-Intern'') ''persona_fit_score'' = Some (JInt 0)"
proof -
  have c1: "\<not> str_in ''CEO'' ''VP of Sales, ex-Intern''" by code_simp
  have c2: "\<not> str_in ''Founder'' ''VP of Sales, ex-Intern''" by code_simp
  have c3: "\<not> str_in ''President'' ''VP of Sales, ex-Intern''" by code_simp
  have v: "str_in ''VP'' ''VP of Sales, ex-Intern''" by code_simp
  have x: "str_in ''intern'' (lower ''VP of Sales, ex-Intern'')" by code_simp
  from fallback_evaluation_keyword_rules [of "''VP of Sales, ex-Intern''"]
  show ?thesis by (simp only: c1 c2 c3 v x simp_thms if_True if_False)
qed

text \<open>
  C5, counterexample. With the client not configured there are no two persona definitions
  that give different \<^verbatim>\<open>persona_fit_score\<close> values, whatever the name, headline and
  comment text.
\<close>

theorem persona_influences_score_counterexample:
  "\<not> (\<exists>(self :: ai_service) json_loads name headline comment_text p1 p2.
        client self = None \<and> p1 \<noteq> p2 \<and>
        result_field (evaluate_profile self json_loads name headline comment_text p1)
            ''persona_fit_score'' \<noteq>
        result_field (evaluate_profile self json_loads name headline comment_text p2)
            ''persona_fit_score'')"
proof
  assume "\<exists>(self :: ai_service) json_loads name headline comment_text p1 p2.
        client self = None \<and> p1 \<noteq> p2 \<and>
        result_field (evaluate_profile self json_loads name headline comment_text p1)
            ''persona_fit_score'' \<noteq>
        result_field (evaluate_profile self json_loads name headline comment_text p2)
            ''persona_fit_score''"
  then obtain self :: ai_service and json_loads name headline comment_text p1 p2
    where unconfigured: "client self = None"
      and differ: "result_field (evaluate_profile self json_loads name headline comment_text p1)
            ''persona_fit_score'' \<noteq>
        result_field (evaluate_profile self json_loads name headline comment_text p2)
            ''persona_fit_score''"
    by blast
  from differ show False
    by (simp add: evaluate_profile_unconfigured [OF unconfigured])
qed

text \<open>
  C5, amended. With the client not configured the result of \<^verbatim>\<open>evaluate_profile\<close> does
  not depend on the persona definition: it is the headline's fallback for every persona.
  With a client configured the result is what the \<^verbatim>\<open>try\<close> block makes of the client's
  answer to the prompt, so the persona definition acts only through the three values the
  prompt takes from it (\<^verbatim>\<open>industries\<close>, \<^verbatim>\<open>job_titles\<close>, \<^verbatim>\<open>seniority\<close>, each
  \<^verbatim>\<open>[]\<close> when absent): two persona definitions that agree on them give the same result.
  Through the prompt it can change the score: for every parser that reads two response
  texts as documents with different \<^verbatim>\<open>persona_fit_score\<close> entries, some client answers two
  persona definitions with different scores.
\<close>

theorem persona_reaches_only_the_llm:
  fixes self :: ai_service
  defines "req name headline comment_text persona_definition \<equiv>
     \<lparr>req_model = model self,
      req_prompt = ProfilePrompt name headline comment_text
        (persona_get persona_definition ''industries'')
        (persona_get persona_definition ''job_titles'')
        (persona_get persona_definition ''seniority'')\<rparr>"
  shows
  "(client self = None \<longrightarrow>
      evaluate_profile self json_loads name headline comment_text p1 =
      evaluate_profile self json_loads name headline comment_text p2)
   \<and> (\<forall>create. client self = Some create \<longrightarrow>
        evaluate_profile self json_loads name headline comment_text p1 =
          (case llm_json json_loads create (req name headline comment_text p1) of
             Inl e \<Rightarrow> Inr (fallback_evaluation headline)
           | Inr result \<Rightarrow> Inr result))
   \<and> (persona_get p1 ''industries'' = persona_get p2 ''industries'' \<and>
       persona_get p1 ''job_titles'' = persona_get p2 ''job_titles'' \<and>
       persona_get p1 ''seniority'' = persona_get p2 ''seniority'' \<longrightarrow>
        evaluate_profile self json_loads name headline comment_text p1 =
        evaluate_profile self json_loads name headline comment_text p2)
   \<and> (json_loads s1 = Some j1 \<and> json_loads s2 = Some j2 \<and>
       field j1 ''persona_fit_score'' \<noteq> field j2 ''persona_fit_score'' \<longrightarrow>
       (\<exists>(svc :: ai_service) q1 q2.
          client svc \<noteq> None \<and>
          result_field (evaluate_profile svc json_loads name headline comment_text q1)
              ''persona_fit_score'' \<noteq>
          result_field (evaluate_profile svc json_loads name headline comment_text q2)
              ''persona_fit_score''))"
proof (intro conjI allI impI)
  assume "client self = None"
  then show "evaluate_profile self json_loads name headline comment_text p1 =
      evaluate_profile self json_loads name headline comment_text p2"
    by (simp add: evaluate_profile_def)
next
  fix create
  assume "client self = Some create"
  then show "evaluate_profile self json_loads name headline comment_text p1 =
          (case llm_json json_loads create (req name headline comment_text p1) of
             Inl e \<Rightarrow> Inr (fallback_evaluation headline)
           | Inr result \<Rightarrow> Inr result)"
    by (simp add: evaluate_profile_def req_def split: sum.splits)
next
  assume "persona_get p1 ''industries'' = persona_get p2 ''industries'' \<and>
       persona_get p1 ''job_titles'' = persona_get p2 ''job_titles'' \<and>
       persona_get p1 ''seniority'' = persona_get p2 ''seniority''"
  then have "ProfilePrompt name headline comment_text
        (persona_get p1 ''industries'') (persona_get p1 ''job_titles'')
        (persona_get p1 ''seniority'') =
      ProfilePrompt name headline comment_text
        (persona_get p2 ''industries'') (persona_get p2 ''job_titles'')
        (persona_get p2 ''seniority'')"
    by simp
  then show "evaluate_profile self json_loads name headline comment_text p1 =
        evaluate_profile self json_loads name headline comment_text p2"
    unfolding evaluate_profile_def by (simp only:)
next
  assume parsed: "json_loads s1 = Some j1 \<and> json_loads s2 = Some j2 \<and>
       field j1 ''persona_fit_score'' \<noteq> field j2 ''persona_fit_score''"
  let ?create = "\<lambda>r :: chat_request.
      (case req_prompt r of
         ProfilePrompt n h c industries titles seniority \<Rightarrow>
           (Inr [Some (if industries = JArr [] then s1 else s2)]
              :: py_exception + chat_response)
       | PostPrompt t p \<Rightarrow> Inl (APIError ''unexpected''))"
  let ?svc = "\<lparr>client = Some ?create, model = ''m''\<rparr>"
  from parsed have "client ?svc \<noteq> None \<and>
        result_field (evaluate_profile ?svc json_loads name headline comment_text [])
            ''persona_fit_score'' \<noteq>
        result_field (evaluate_profile ?svc json_loads name headline comment_text
              [(''industries'', JArr [JStr ''SaaS''])])
            ''persona_fit_score''"
    by (simp add: evaluate_profile_def llm_json_def persona_get_def result_field_def)
  then show "\<exists>(svc :: ai_service) q1 q2.
          client svc \<noteq> None \<and>
          result_field (evaluate_profile svc json_loads name headline comment_text q1)
              ''persona_fit_score'' \<noteq>
          result_field (evaluate_profile svc json_loads name headline comment_text q2)
              ''persona_fit_score''"
    by blast
qed

theorem persona_reaches_only_the_llm_witness:
  "evaluate_profile \<lparr>client = None, model = ''m''\<rparr> example_json_loads ''Ann'' ''CEO'' ''hello''
       [(''seniority'', JArr [JStr ''C-level''])] =
   evaluate_profile \<lparr>client = None, model = ''m''\<rparr> example_json_loads ''Ann'' ''CEO'' ''hello''
       [(''seniority'', JArr [JStr ''Student''])]
   \<and> evaluate_profile \<lparr>client = Some (\<lambda>r. Inr [Some (score_document ''90'')]), model = ''m''\<rparr>
       example_json_loads ''Ann'' ''CEO'' ''hello''
       [(''seniority'', JArr [JStr ''C-level'']), (''region'', JStr ''EU'')] =
     evaluate_profile \<lparr>client = Some (\<lambda>r. Inr [Some (score_document ''90'')]), model = ''m''\<rparr>
       example_json_loads ''Ann'' ''CEO'' ''hello''
       [(''seniority'', JArr [JStr ''C-level'']), (''region'', JStr ''US'')]
   \<and> (\<exists>(svc :: ai_service) q1 q2.
          client svc \<noteq> None \<and>
          result_field (evaluate_profile svc example_json_loads ''Ann'' ''CEO'' ''hello'' q1)
              ''persona_fit_score'' \<noteq>
          result_field (evaluate_profile svc example_json_loads ''Ann'' ''CEO'' ''hello'' q2)
              ''persona_fit_score'')"
proof (intro conjI)
  show "evaluate_profile \<lparr>client = None, model = ''m''\<rparr> example_json_loads ''Ann'' ''CEO''
       ''hello'' [(''seniority'', JArr [JStr ''C-level''])] =
   evaluate_profile \<lparr>client = None, model = ''m''\<rparr> example_json_loads ''Ann'' ''CEO'' ''hello''
       [(''seniority'', JArr [JStr ''Student''])]"
    by (rule persona_reaches_only_the_llm [THEN conjunct1, THEN mp]) simp
  show "evaluate_profile \<lparr>client = Some (\<lambda>r. Inr [Some (score_document ''90'')]), model = ''m''\<rparr>
       example_json_loads ''Ann'' ''CEO'' ''hello''
       [(''seniority'', JArr [JStr ''C-level'']), (''region'', JStr ''EU'')] =
     evaluate_profile \<lparr>client = Some (\<lambda>r. Inr [Some (score_document ''90'')]), model = ''m''\<rparr>
       example_json_loads ''Ann'' ''CEO'' ''hello''
       [(''seniority'', JArr [JStr ''C-level'']), (''region'', JStr ''US'')]"
    by (rule persona_reaches_only_the_llm
          [THEN conjunct2, THEN conjunct2, THEN conjunct1, THEN mp])
       (simp add: persona_get_def)
  show "\<exists>(svc :: ai_service) q1 q2.
          client svc \<noteq> None \<and>
          result_field (evaluate_profile svc example_json_loads ''Ann'' ''CEO'' ''hello'' q1)
              ''persona_fit_score'' \<noteq>
          result_field (evaluate_profile svc example_json_loads ''Ann'' ''CEO'' ''hello'' q2)
              ''persona_fit_score''"
    by (rule persona_reaches_only_the_llm
          [where ?s1.0 = "score_document ''10''" and ?s2.0 = "score_document ''90''"
             and ?j1.0 = "JObj [(''persona_fit_score'', JInt 10)]"
             and ?j2.0 = "JObj [(''persona_fit_score'', JInt 90)]",
           THEN conjunct2, THEN conjunct2, THEN conjunct2, THEN mp])
       (simp add: example_json_loads_def score_document_def)
qed

text \<open>
  C6. \<^verbatim>\<open>analyze_post_content\<close> never raises, on any post text and customer product: it
  always returns a value. When the client is not configured, or the API call raises, or the
  response has no choice, or the first choice has no content, or \<^verbatim>\<open>json.loads\<close> rejects
  the content, the returned dict has intent unknown, an empty topics list and
  relevance score 50.
\<close>

theorem analyze_post_content_never_raises:
  fixes self :: ai_service
  defines "req post_text customer_product \<equiv>
     \<lparr>req_model = model self,
      req_prompt = PostPrompt post_text
        (if customer_product \<noteq> [] then customer_product else ''General B2B SaaS'')\<rparr>"
  shows
  "(\<exists>r. analyze_post_content self json_loads post_text customer_product = Inr r)
   \<and> (client self = None \<or>
       (\<exists>create. client self = Some create \<and>
          ((\<exists>e. create (req post_text customer_product) = Inl e)
           \<or> create (req post_text customer_product) = Inr []
           \<or> (\<exists>rest. create (req post_text customer_product) = Inr (None # rest))
           \<or> (\<exists>s rest. create (req post_text customer_product) = Inr (Some s # rest)
                 \<and> json_loads s = None))) \<longrightarrow>
       result_field (analyze_post_content self json_loads post_text customer_product)
            ''intent'' = Some (JStr ''unknown'')
       \<and> result_field (analyze_post_content self json_loads post_text customer_product)
            ''topics'' = Some (JArr [])
       \<and> result_field (analyze_post_content self json_loads post_text customer_product)
            ''relevance_score'' = Some (JInt 50))"
proof (intro conjI impI)
  show "\<exists>r. analyze_post_content self json_loads post_text customer_product = Inr r"
    by (simp add: analyze_post_content_def split: option.splits sum.splits)
next
  let ?res = "analyze_post_content self json_loads post_text customer_product"
  assume a: "client self = None \<or>
       (\<exists>create. client self = Some create \<and>
          ((\<exists>e. create (req post_text customer_product) = Inl e)
           \<or> create (req post_text customer_product) = Inr []
           \<or> (\<exists>rest. create (req post_text customer_product) = Inr (None # rest))
           \<or> (\<exists>s rest. create (req post_text customer_product) = Inr (Some s # rest)
                 \<and> json_loads s = None)))"
  have "?res = Inr (JObj [(''intent'', JStr ''unknown''), (''topics'', JArr []),
                     (''relevance_score'', JInt 50)])
      \<or> ?res = Inr (JObj [(''intent'', JStr ''unknown''), (''topics'', JArr []),
                     (''relevance_score'', JInt 50), (''summary'', JStr [])])"
  proof (cases "client self")
    case None
    then show ?thesis by (simp add: analyze_post_content_def)
  next
    case (Some create)
    with a have "\<exists>e. llm_json json_loads create (req post_text customer_product) = Inl e"
      by (simp only: llm_json_fails_iff) simp
    then obtain e where
      "llm_json json_loads create (req post_text customer_product) = Inl e" ..
    with Some show ?thesis
      by (simp add: analyze_post_content_def req_def)
  qed
  then show "result_field ?res ''intent'' = Some (JStr ''unknown'')"
    and "result_field ?res ''topics'' = Some (JArr [])"
    and "result_field ?res ''relevance_score'' = Some (JInt 50)"
    by (auto simp: result_field_def)
qed

theorem analyze_post_content_never_raises_witness:
  "result_field (analyze_post_content
       \<lparr>client = Some (\<lambda>r. Inl (APIError ''rate limit'')), model = ''gpt-4o''\<rparr>
       (\<lambda>s. None) ''Looking for a CRM'' []) ''intent'' = Some (JStr ''unknown'')
   \<and> result_field (analyze_post_content
       \<lparr>client = Some (\<lambda>r. Inl (APIError ''rate limit'')), model = ''gpt-4o''\<rparr>
       (\<lambda>s. None) ''Looking for a CRM'' []) ''topics'' = Some (JArr [])
   \<and> result_field (analyze_post_content
       \<lparr>client = Some (\<lambda>r. Inl (APIError ''rate limit'')), model = ''gpt-4o''\<rparr>
       (\<lambda>s. None) ''Looking for a CRM'' []) ''relevance_score'' = Some (JInt 50)"
  by (rule analyze_post_content_never_raises [THEN conjunct2, THEN mp]) simp

section \<open>Properties of the webhook handlers\<close>

lemma truthy_iff:
  "truthy v \<longleftrightarrow>
     v \<noteq> JNull \<and> v \<noteq> JBool False \<and> v \<noteq> JInt 0 \<and> v \<noteq> JFloat 0 \<and> v \<noteq> JStr [] \<and>
     v \<noteq> JArr [] \<and> v \<noteq> JObj []"
  by (cases v) auto

lemma webhook_body_on_objects:
  assumes "payload = JObj kvs"
    and "map_of kvs ''resource'' = None \<or> (\<exists>rvs. map_of kvs ''resource'' = Some (JObj rvs))"
  shows "webhook_body task payload tasks =
     Inr (JObj [(''status'', JStr ''received'')],
          if field payload ''eventType'' = Some (JStr ''ACTOR.RUN.SUCCEEDED'') \<and>
             truthy (case field (case field payload ''resource'' of None \<Rightarrow> JObj [] | Some r \<Rightarrow> r)
                            ''defaultDatasetId'' of None \<Rightarrow> JNull | Some v \<Rightarrow> v)
          then tasks @
            [task (case field (case field payload ''resource'' of None \<Rightarrow> JObj [] | Some r \<Rightarrow> r)
                            ''defaultDatasetId'' of None \<Rightarrow> JNull | Some v \<Rightarrow> v)
                  (case field (case field payload ''resource'' of None \<Rightarrow> JObj [] | Some r \<Rightarrow> r)
                            ''id'' of None \<Rightarrow> JNull | Some v \<Rightarrow> v)]
          else tasks)"
  using assms by (auto simp: webhook_body_def split: option.splits)

text \<open>
  C2, counterexample. A payload whose \<^verbatim>\<open>eventType\<close> is \<^verbatim>\<open>ACTOR.RUN.SUCCEEDED\<close>
  and whose resource has a \<^verbatim>\<open>defaultDatasetId\<close>, the empty string, is answered with
  \<^verbatim>\<open>received\<close> and schedules nothing, on both endpoints; and a payload that is a JSON
  array gets no \<^verbatim>\<open>received\<close> answer at all, the handler raises.
\<close>

theorem webhook_present_dataset_counterexample:
  "apify_webhook
     (JObj [(''eventType'', JStr ''ACTOR.RUN.SUCCEEDED''),
            (''resource'', JObj [(''id'', JStr ''run1''), (''defaultDatasetId'', JStr [])])]) []
     = Inr (JObj [(''status'', JStr ''received'')], [])
   \<and> analysis_webhook
     (JObj [(''eventType'', JStr ''ACTOR.RUN.SUCCEEDED''),
            (''resource'', JObj [(''id'', JStr ''run1''), (''defaultDatasetId'', JStr [])])]) []
     = Inr (JObj [(''status'', JStr ''received'')], [])
   \<and> apify_webhook (JArr []) [] = Inl AttributeError
   \<and> analysis_webhook (JArr []) [] = Inl AttributeError"
  by (simp add: apify_webhook_def analysis_webhook_def webhook_body_def)

text \<open>
  C2, amended. For every payload that is a JSON object whose \<^verbatim>\<open>resource\<close>, when present,
  is a JSON object, both handlers return \<^verbatim>\<open>{"status": "received"}\<close>, and the background
  fetch is scheduled if and only if \<^verbatim>\<open>eventType\<close> equals \<^verbatim>\<open>ACTOR.RUN.SUCCEEDED\<close> and
  \<^verbatim>\<open>resource.defaultDatasetId\<close> is present with a truthy value (not null, false, zero, or
  an empty string, list or object). Nothing is deduplicated: delivering the same successful
  payload twice schedules the fetch twice.
\<close>

theorem webhook_schedules_iff_truthy_dataset:
  fixes payload :: json
  defines "resource \<equiv> (case field payload ''resource'' of None \<Rightarrow> JObj [] | Some r \<Rightarrow> r)"
  defines "dataset_id \<equiv> (case field resource ''defaultDatasetId'' of None \<Rightarrow> JNull | Some v \<Rightarrow> v)"
  defines "run_id \<equiv> (case field resource ''id'' of None \<Rightarrow> JNull | Some v \<Rightarrow> v)"
  defines "succeeded \<equiv>
     field payload ''eventType'' = Some (JStr ''ACTOR.RUN.SUCCEEDED'') \<and>
     (\<exists>v. field resource ''defaultDatasetId'' = Some v \<and>
          v \<noteq> JNull \<and> v \<noteq> JBool False \<and> v \<noteq> JInt 0 \<and> v \<noteq> JFloat 0 \<and> v \<noteq> JStr [] \<and>
          v \<noteq> JArr [] \<and> v \<noteq> JObj [])"
  defines "received \<equiv> JObj [(''status'', JStr ''received'')]"
  assumes object: "\<exists>kvs. payload = JObj kvs"
    and resource_object:
      "field payload ''resource'' = None \<or> (\<exists>rvs. field payload ''resource'' = Some (JObj rvs))"
  shows
  "apify_webhook payload tasks =
     Inr (received,
          if succeeded then tasks @ [Process_apify_dataset dataset_id run_id] else tasks)
   \<and> analysis_webhook payload tasks =
     Inr (received,
          if succeeded then tasks @ [Process_webhook dataset_id run_id] else tasks)
   \<and> (succeeded \<longrightarrow>
       (\<exists>once. apify_webhook payload tasks = Inr (received, once) \<and>
          apify_webhook payload once =
            Inr (received, tasks @ [Process_apify_dataset dataset_id run_id,
                                    Process_apify_dataset dataset_id run_id]))
       \<and> (\<exists>once. analysis_webhook payload tasks = Inr (received, once) \<and>
          analysis_webhook payload once =
            Inr (received, tasks @ [Process_webhook dataset_id run_id,
                                    Process_webhook dataset_id run_id])))"
proof -
  from object obtain kvs where p: "payload = JObj kvs" ..
  from resource_object p
  have r: "map_of kvs ''resource'' = None \<or> (\<exists>rvs. map_of kvs ''resource'' = Some (JObj rvs))"
    by simp
  have s: "succeeded \<longleftrightarrow>
      field payload ''eventType'' = Some (JStr ''ACTOR.RUN.SUCCEEDED'') \<and> truthy dataset_id"
    unfolding succeeded_def dataset_id_def truthy_iff by (auto split: option.splits)
  have body: "webhook_body task payload ts =
      Inr (received, if succeeded then ts @ [task dataset_id run_id] else ts)" for task ts
    unfolding s received_def dataset_id_def run_id_def resource_def
    by (rule webhook_body_on_objects [OF p r])
  have a: "apify_webhook payload ts =
      Inr (received, if succeeded then ts @ [Process_apify_dataset dataset_id run_id] else ts)"
    for ts
    by (simp only: apify_webhook_def body)
  have b: "analysis_webhook payload ts =
      Inr (received, if succeeded then ts @ [Process_webhook dataset_id run_id] else ts)"
    for ts
    by (simp only: analysis_webhook_def body)
  show ?thesis
    by (simp add: a b)
qed

theorem webhook_schedules_iff_truthy_dataset_witness:
  "apify_webhook
     (JObj [(''eventType'', JStr ''ACTOR.RUN.SUCCEEDED''),
            (''resource'', JObj [(''id'', JStr ''run1''), (''defaultDatasetId'', JStr ''ds1'')])])
     [Process_apify_dataset (JStr ''ds1'') (JStr ''run1'')]
   = Inr (JObj [(''status'', JStr ''received'')],
          [Process_apify_dataset (JStr ''ds1'') (JStr ''run1''),
           Process_apify_dataset (JStr ''ds1'') (JStr ''run1'')])"
proof -
  let ?p = "JObj [(''eventType'', JStr ''ACTOR.RUN.SUCCEEDED''),
            (''resource'', JObj [(''id'', JStr ''run1''), (''defaultDatasetId'', JStr ''ds1'')])]"
  have object: "\<exists>kvs. ?p = JObj kvs" by simp
  have resource_object:
    "field ?p ''resource'' = None \<or> (\<exists>rvs. field ?p ''resource'' = Some (JObj rvs))" by simp
  from webhook_schedules_iff_truthy_dataset [OF object resource_object,
      of "[Process_apify_dataset (JStr ''ds1'') (JStr ''run1'')]", THEN conjunct1]
  show ?thesis by simp
qed

section \<open>Properties of the campaign repository\<close>

text \<open>
  C10. \<^verbatim>\<open>update_status\<close> on an existing campaign returns the updated row and stores it
  under the same key, leaving every other row alone. A \<^verbatim>\<open>started_at\<close> that is set is
  preserved; it is assigned only when the new status is active and it was unset. Status
  active also clears \<^verbatim>\<open>paused_at\<close> and sets \<^verbatim>\<open>last_resumed_at\<close>, paused sets
  \<^verbatim>\<open>paused_at\<close>, completed sets \<^verbatim>\<open>completed_at\<close>, and any other status changes only the
  status and \<^verbatim>\<open>updated_at\<close>. When no campaign has the id, the result is \<^verbatim>\<open>None\<close> and the
  state is unchanged.
\<close>

theorem update_status_timestamps:
  fixes s :: "'a campaign_scheme repository"
  defines "t k \<equiv> clock s !! k"
  shows
  "(campaigns s campaign_id = None \<longrightarrow> update_status campaign_id status s = (None, s))
   \<and> (\<forall>c. campaigns s campaign_id = Some c \<longrightarrow>
       (\<exists>c' s'. update_status campaign_id status s = (Some c', s')
          \<and> campaigns s' = (campaigns s)(campaign_id \<mapsto> c')
          \<and> campaign_status c' = status
          \<and> (\<forall>started. started_at c = Some started \<longrightarrow> started_at c' = Some started)
          \<and> (started_at c' \<noteq> started_at c \<longrightarrow> status = ''active'' \<and> started_at c = None)
          \<and> (status = ''active'' \<and> started_at c = None \<longrightarrow>
                c' = c\<lparr>campaign_status := status, campaign_updated_at := t 0,
                       started_at := Some (t 1), paused_at := None,
                       last_resumed_at := Some (t 2)\<rparr>)
          \<and> (status = ''active'' \<and> started_at c \<noteq> None \<longrightarrow>
                c' = c\<lparr>campaign_status := status, campaign_updated_at := t 0,
                       paused_at := None, last_resumed_at := Some (t 1)\<rparr>)
          \<and> (status = ''paused'' \<longrightarrow>
                c' = c\<lparr>campaign_status := status, campaign_updated_at := t 0,
                       paused_at := Some (t 1)\<rparr>)
          \<and> (status = ''completed'' \<longrightarrow>
                c' = c\<lparr>campaign_status := status, campaign_updated_at := t 0,
                       completed_at := Some (t 1)\<rparr>)
          \<and> (status \<noteq> ''active'' \<and> status \<noteq> ''paused'' \<and> status \<noteq> ''completed'' \<longrightarrow>
                c' = c\<lparr>campaign_status := status, campaign_updated_at := t 0\<rparr>)))"
proof (intro conjI allI impI)
  assume "campaigns s campaign_id = None"
  then show "update_status campaign_id status s = (None, s)"
    by (simp add: update_status_def get_def)
next
  fix c
  assume c: "campaigns s campaign_id = Some c"
  have one: "clock s !! 1 = shd (stl (clock s))" by simp
  have two: "clock s !! 2 = shd (stl (stl (clock s)))" by (simp add: numeral_2_eq_2)
  consider (fresh) "status = ''active''" "started_at c = None"
    | (resumed) "status = ''active''" "started_at c \<noteq> None"
    | (paused) "status = ''paused''"
    | (completed) "status = ''completed''"
    | (other) "status \<noteq> ''active''" "status \<noteq> ''paused''" "status \<noteq> ''completed''"
    by blast
  then show "\<exists>c' s'. update_status campaign_id status s = (Some c', s')
          \<and> campaigns s' = (campaigns s)(campaign_id \<mapsto> c')
          \<and> campaign_status c' = status
          \<and> (\<forall>started. started_at c = Some started \<longrightarrow> started_at c' = Some started)
          \<and> (started_at c' \<noteq> started_at c \<longrightarrow> status = ''active'' \<and> started_at c = None)
          \<and> (status = ''active'' \<and> started_at c = None \<longrightarrow>
                c' = c\<lparr>campaign_status := status, campaign_updated_at := t 0,
                       started_at := Some (t 1), paused_at := None,
                       last_resumed_at := Some (t 2)\<rparr>)
          \<and> (status = ''active'' \<and> started_at c \<noteq> None \<longrightarrow>
                c' = c\<lparr>campaign_status := status, campaign_updated_at := t 0,
                       paused_at := None, last_resumed_at := Some (t 1)\<rparr>)
          \<and> (status = ''paused'' \<longrightarrow>
                c' = c\<lparr>campaign_status := status, campaign_updated_at := t 0,
                       paused_at := Some (t 1)\<rparr>)
          \<and> (status = ''completed'' \<longrightarrow>
                c' = c\<lparr>campaign_status := status, campaign_updated_at := t 0,
                       completed_at := Some (t 1)\<rparr>)
          \<and> (status \<noteq> ''active'' \<and> status \<noteq> ''paused'' \<and> status \<noteq> ''completed'' \<longrightarrow>
                c' = c\<lparr>campaign_status := status, campaign_updated_at := t 0\<rparr>)"
  proof cases
    case fresh
    with c show ?thesis
      unfolding t_def one two
      by (simp add: update_status_def get_def commit_def utcnow_def Let_def)
  next
    case resumed
    with c show ?thesis
      unfolding t_def one two
      by (auto simp: update_status_def get_def commit_def utcnow_def Let_def)
  next
    case paused
    with c show ?thesis
      unfolding t_def one two
      by (simp add: update_status_def get_def commit_def utcnow_def Let_def)
  next
    case completed
    with c show ?thesis
      unfolding t_def one two
      by (simp add: update_status_def get_def commit_def utcnow_def Let_def)
  next
    case other
    with c show ?thesis
      unfolding t_def one two
      by (simp add: update_status_def get_def commit_def utcnow_def Let_def)
  qed
qed

theorem update_status_timestamps_witness:
  "fst (update_status (UUID 1) ''active''
     \<lparr>campaigns = [UUID 1 \<mapsto>
        \<lparr>campaign_org_id = UUID 7, campaign_type = ''email'', campaign_status = ''draft'',
         leads_count = 0, qualified_leads_count = 0, contacted_count = 0, replied_count = 0,
         started_at = None, paused_at = Some 50, last_resumed_at = None, completed_at = None,
         campaign_updated_at = 10\<rparr>],
      clock = siterate (\<lambda>now. now + 1) 100\<rparr>)
   = Some \<lparr>campaign_org_id = UUID 7, campaign_type = ''email'', campaign_status = ''active'',
         leads_count = 0, qualified_leads_count = 0, contacted_count = 0, replied_count = 0,
         started_at = Some 101, paused_at = None, last_resumed_at = Some 102,
         completed_at = None, campaign_updated_at = 100\<rparr>"
proof -
  let ?c = "\<lparr>campaign_org_id = UUID 7, campaign_type = ''email'', campaign_status = ''draft'',
         leads_count = 0, qualified_leads_count = 0, contacted_count = 0, replied_count = 0,
         started_at = None, paused_at = Some 50, last_resumed_at = None, completed_at = None,
         campaign_updated_at = 10\<rparr>"
  let ?s = "\<lparr>campaigns = [UUID 1 \<mapsto> ?c], clock = siterate (\<lambda>now. now + 1) (100 :: int)\<rparr>"
  have found: "campaigns ?s (UUID 1) = Some ?c" by simp
  note facts = update_status_timestamps [of ?s "UUID 1" "''active''", THEN conjunct2,
      THEN spec, THEN mp, OF found]
  then obtain c' s' where
    result: "update_status (UUID 1) ''active'' ?s = (Some c', s')" and
    fresh: "''active'' = ''active'' \<and> started_at ?c = None \<longrightarrow>
       c' = ?c\<lparr>campaign_status := ''active'', campaign_updated_at := clock ?s !! 0,
              started_at := Some (clock ?s !! 1), paused_at := None,
              last_resumed_at := Some (clock ?s !! 2)\<rparr>"
    by (elim exE conjE) (rule that, assumption+)
  from fresh have "c' = ?c\<lparr>campaign_status := ''active'', campaign_updated_at := 100,
              started_at := Some 101, paused_at := None, last_resumed_at := Some 102\<rparr>"
    by (simp add: numeral_2_eq_2)
  with result show ?thesis by simp
qed

section \<open>Properties of the analysis endpoints\<close>

text \<open>
  C8. A request with more than 10 post URLs gets HTTP 400 with detail
  \<^verbatim>\<open>Max 10 URLs allowed per batch\<close>, whatever the service would do and without touching its
  state. With at most 10 URLs every failure is reported as HTTP 500, and nothing else is:
  an \<^verbatim>\<open>org_id\<close> that is no UUID and a non-empty \<^verbatim>\<open>persona_id\<close> that is no UUID give
  500 before the service is called, an exception of \<^verbatim>\<open>analyze_posts\<close> gives 500 with that
  exception as detail, and when the service returns, the answer is \<^verbatim>\<open>started\<close> with its
  ids.
\<close>

theorem start_analysis_batch_limit:
  fixes request :: analyze_request and uuid_UUID :: "string \<Rightarrow> uuid option"
  defines "persona_uuid \<equiv>
     (case req_persona_id request of
        None \<Rightarrow> Some None
      | Some p \<Rightarrow> if p \<noteq> [] then map_option Some (uuid_UUID p) else Some None)"
  shows
  "(length (post_urls request) > 10 \<longrightarrow>
      start_analysis uuid_UUID analyze_posts request s =
        (Inl (HTTPException 400 (Text ''Max 10 URLs allowed per batch'')), s))
   \<and> (length (post_urls request) \<le> 10 \<longrightarrow>
        (\<forall>e. fst (start_analysis uuid_UUID analyze_posts request s) = Inl e \<longrightarrow>
             status_code e = 500))
   \<and> (length (post_urls request) \<le> 10 \<and> uuid_UUID (req_org_id request) = None \<longrightarrow>
        start_analysis uuid_UUID analyze_posts request s =
          (Inl (HTTPException 500 (Str ValueError)), s))
   \<and> (\<forall>org_uuid. length (post_urls request) \<le> 10 \<and>
          uuid_UUID (req_org_id request) = Some org_uuid \<and> persona_uuid = None \<longrightarrow>
        start_analysis uuid_UUID analyze_posts request s =
          (Inl (HTTPException 500 (Str ValueError)), s))
   \<and> (\<forall>org_uuid persona e s'. length (post_urls request) \<le> 10 \<and>
          uuid_UUID (req_org_id request) = Some org_uuid \<and> persona_uuid = Some persona \<and>
          analyze_posts (post_urls request) org_uuid persona s = (Inl e, s') \<longrightarrow>
        start_analysis uuid_UUID analyze_posts request s =
          (Inl (HTTPException 500 (Str e)), s'))
   \<and> (\<forall>org_uuid persona ids s'. length (post_urls request) \<le> 10 \<and>
          uuid_UUID (req_org_id request) = Some org_uuid \<and> persona_uuid = Some persona \<and>
          analyze_posts (post_urls request) org_uuid persona s = (Inr ids, s') \<longrightarrow>
        start_analysis uuid_UUID analyze_posts request s =
          (Inr \<lparr>resp_status = ''started'', resp_count = length ids, resp_ids = ids\<rparr>, s'))"
  unfolding persona_uuid_def
  by (auto simp: start_analysis_def split: option.splits sum.splits prod.splits if_splits)

theorem start_analysis_batch_limit_witness:
  "start_analysis example_uuid (\<lambda>urls org persona n. (Inr urls, n + length urls))
     \<lparr>post_urls = replicate 11 ''https://www.linkedin.com/posts/a'',
      req_org_id = ''00000000-0000-0000-0000-000000000007'', req_persona_id = None\<rparr> (0 :: nat)
   = (Inl (HTTPException 400 (Text ''Max 10 URLs allowed per batch'')), 0)
   \<and> start_analysis example_uuid
     (\<lambda>urls org persona n. (Inl (APIError ''actor not found'') :: py_exception + string list, n + 1))
     \<lparr>post_urls = [''https://www.linkedin.com/posts/a''],
      req_org_id = ''00000000-0000-0000-0000-000000000007'', req_persona_id = None\<rparr> (0 :: nat)
   = (Inl (HTTPException 500 (Str (APIError ''actor not found''))), 1)
   \<and> start_analysis example_uuid (\<lambda>urls org persona n. (Inr urls, n + length urls))
     \<lparr>post_urls = [''https://www.linkedin.com/posts/a''],
      req_org_id = ''00000000-0000-0000-0000-000000000007'',
      req_persona_id = Some ''not-a-uuid''\<rparr> (0 :: nat)
   = (Inl (HTTPException 500 (Str ValueError)), 0)"
proof (intro conjI)
  show "start_analysis example_uuid (\<lambda>urls org persona n. (Inr urls, n + length urls))
     \<lparr>post_urls = replicate 11 ''https://www.linkedin.com/posts/a'',
      req_org_id = ''00000000-0000-0000-0000-000000000007'', req_persona_id = None\<rparr> (0 :: nat)
   = (Inl (HTTPException 400 (Text ''Max 10 URLs allowed per batch'')), 0)"
    by (rule start_analysis_batch_limit [THEN conjunct1, THEN mp]) simp
  show "start_analysis example_uuid
     (\<lambda>urls org persona n. (Inl (APIError ''actor not found'') :: py_exception + string list, n + 1))
     \<lparr>post_urls = [''https://www.linkedin.com/posts/a''],
      req_org_id = ''00000000-0000-0000-0000-000000000007'', req_persona_id = None\<rparr> (0 :: nat)
   = (Inl (HTTPException 500 (Str (APIError ''actor not found''))), 1)"
    by (rule start_analysis_batch_limit
          [THEN conjunct2, THEN conjunct2, THEN conjunct2, THEN conjunct2, THEN conjunct1,
           THEN spec [where x = "UUID 7"], THEN spec [where x = "None :: uuid option"],
           THEN spec, THEN spec, THEN mp])
       (simp add: example_uuid_def)
  show "start_analysis example_uuid (\<lambda>urls org persona n. (Inr urls, n + length urls))
     \<lparr>post_urls = [''https://www.linkedin.com/posts/a''],
      req_org_id = ''00000000-0000-0000-0000-000000000007'',
      req_persona_id = Some ''not-a-uuid''\<rparr> (0 :: nat)
   = (Inl (HTTPException 500 (Str ValueError)), 0)"
    by (rule start_analysis_batch_limit
          [THEN conjunct2, THEN conjunct2, THEN conjunct2, THEN conjunct1,
           THEN spec [where x = "UUID 7"], THEN mp])
       (simp add: example_uuid_def)
qed

lemma set_order_by_desc: "set (order_by_desc column rows) = set rows"
  by (simp add: order_by_desc_def)

lemma sorted_order_by_desc:
  "sorted_wrt (\<lambda>a b. column b \<le> column a) (order_by_desc column rows)"
proof -
  have "sorted (map (\<lambda>r. - column r) (sort_key (\<lambda>r. - column r) rows))"
    by (rule sorted_sort_key)
  then show ?thesis
    by (simp add: order_by_desc_def sorted_map)
qed

lemma select_posts_rows:
  assumes "select_posts db org_uuid status limit = Inr posts"
  shows "set posts \<subseteq> set (linkedin_post_table db)"
    and "\<forall>p\<in>set posts. post_org_id p = org_uuid"
    and "\<forall>p\<in>set posts. \<forall>st. status = Some st \<and> st \<noteq> [] \<longrightarrow> post_status p = st"
    and "int (length posts) \<le> limit"
    and "sorted_wrt (\<lambda>p q. post_created_at q \<le> post_created_at p) posts"
proof -
  define rows where "rows =
    (case status of
       None \<Rightarrow> filter (\<lambda>p. post_org_id p = org_uuid) (linkedin_post_table db)
     | Some st \<Rightarrow>
         if st \<noteq> []
         then filter (\<lambda>p. post_status p = st)
                (filter (\<lambda>p. post_org_id p = org_uuid) (linkedin_post_table db))
         else filter (\<lambda>p. post_org_id p = org_uuid) (linkedin_post_table db))"
  from assms have nonneg: "0 \<le> limit"
    and posts: "posts = take (nat limit) (order_by_desc post_created_at rows)"
    by (auto simp: select_posts_def rows_def Let_def split: if_splits)
  have sub: "set posts \<subseteq> set rows"
    unfolding posts using set_take_subset [of "nat limit" "order_by_desc post_created_at rows"]
    by (simp add: set_order_by_desc)
  have rows_org: "\<forall>p\<in>set rows. p \<in> set (linkedin_post_table db) \<and> post_org_id p = org_uuid"
    by (auto simp: rows_def split: option.splits)
  have rows_status: "\<forall>p\<in>set rows. \<forall>st. status = Some st \<and> st \<noteq> [] \<longrightarrow> post_status p = st"
    by (auto simp: rows_def split: option.splits)
  from sub rows_org show "set posts \<subseteq> set (linkedin_post_table db)" by blast
  from sub rows_org show "\<forall>p\<in>set posts. post_org_id p = org_uuid" by blast
  from sub rows_status
  show "\<forall>p\<in>set posts. \<forall>st. status = Some st \<and> st \<noteq> [] \<longrightarrow> post_status p = st" by blast
  from nonneg show "int (length posts) \<le> limit"
    unfolding posts by simp
  show "sorted_wrt (\<lambda>p q. post_created_at q \<le> post_created_at p) posts"
    unfolding posts by (rule sorted_wrt_take) (rule sorted_order_by_desc)
qed

lemma select_interactions_rows:
  "set (select_interactions db post) =
     {i \<in> set (post_interaction_table db). interaction_post_id i = post_id post}"
  by (auto simp: select_interactions_def set_order_by_desc)

lemma length_order_by_desc: "length (order_by_desc column rows) = length rows"
  by (simp add: order_by_desc_def)

lemma filter_order_by_desc:
  "filter P (order_by_desc column rows) = order_by_desc column (filter P rows)"
  by (simp add: order_by_desc_def filter_sort)

lemma get_analysis_results_Inr:
  assumes "get_analysis_results uuid_UUID db org_id limit_param status = Inr resp"
  obtains org_uuid posts where
    "uuid_UUID org_id = Some org_uuid"
    "(case limit_param of None \<Rightarrow> 20 | Some l \<Rightarrow> l) \<le> 100"
    "select_posts db org_uuid status (case limit_param of None \<Rightarrow> 20 | Some l \<Rightarrow> l) = Inr posts"
    "resp = \<lparr>resp_total = length posts, resp_results = map (result_for db) posts\<rparr>"
  using assms
  by (auto simp: get_analysis_results_def Let_def split: if_splits option.splits sum.splits)

lemma result_for_interactions:
  "entry_interactions (result_for db post) = map interaction_row (select_interactions db post)"
  by (simp add: result_for_def Let_def)

lemma result_for_post:
  "view_id (entry_post (result_for db post)) = post_id post"
  "view_status (entry_post (result_for db post)) = post_status post"
  "view_created_at (entry_post (result_for db post)) = Some (post_created_at post)"
  by (simp_all add: result_for_def Let_def)

lemma result_for_counts:
  "leads_created (result_for db post) =
     length (filter (\<lambda>i. lead_id i \<noteq> None) (select_interactions db post))"
  "high_value_count (result_for db post) =
     length (filter (\<lambda>i. classification i = ''high'') (select_interactions db post))"
  by (simp_all add: result_for_def Let_def)

lemma count_selected_interactions:
  "length (filter P (select_interactions db post)) =
     length (filter (\<lambda>i. interaction_post_id i = post_id post \<and> P i) (post_interaction_table db))"
  by (simp add: select_interactions_def filter_order_by_desc length_order_by_desc conj_commute)

lemma sorted_select_interactions:
  "sorted_wrt (\<lambda>i j. relevance_score j \<le> relevance_score i) (select_interactions db post)"
  unfolding select_interactions_def by (rule sorted_order_by_desc)

text \<open>
  C7, counterexample. The status filter is supplied as the empty string, and the post
  returned has status \<^verbatim>\<open>pending\<close>.
\<close>

theorem status_filter_counterexample:
  "get_analysis_results example_uuid
     \<lparr>linkedin_post_table = [example_post 10 (UUID 7) ''pending'' 100],
      post_interaction_table = [], lead_table = []\<rparr>
     ''00000000-0000-0000-0000-000000000007'' None (Some [])
   = Inr \<lparr>resp_total = 1,
          resp_results =
            [\<lparr>entry_post =
                \<lparr>view_id = UUID 10, view_url = ''https://www.linkedin.com/posts/example'',
                 view_content = ''Which CRM do you use?'', view_author = Some ''Ann'',
                 view_status = ''pending'', view_intent = None, view_ai_insights = JObj [],
                 view_total_comments = 0, view_total_likes = 0,
                 view_created_at = Some 100\<rparr>,
              entry_interactions = [], leads_created = 0, high_value_count = 0\<rparr>]\<rparr>"
  by (simp add: get_analysis_results_def select_posts_def order_by_desc_def result_for_def
      select_interactions_def example_uuid_def example_post_def)

text \<open>
  C7, amended. Every post in the results of \<^verbatim>\<open>get_analysis_results\<close> is a row of the post
  table whose \<^verbatim>\<open>org_id\<close> is the requested organization; when a non-empty status filter is
  supplied every returned post has exactly that status; and every interaction listed under
  a post is a row of the interaction table whose \<^verbatim>\<open>post_id\<close> is that post's id.
\<close>

theorem get_analysis_results_scoping:
  assumes "get_analysis_results uuid_UUID db org_id limit_param status = Inr resp"
  shows "\<exists>org_uuid posts.
      uuid_UUID org_id = Some org_uuid
      \<and> resp_results resp = map (result_for db) posts
      \<and> set posts \<subseteq> set (linkedin_post_table db)
      \<and> (\<forall>p\<in>set posts.
           post_org_id p = org_uuid
           \<and> view_id (entry_post (result_for db p)) = post_id p
           \<and> (\<forall>st. status = Some st \<and> st \<noteq> [] \<longrightarrow>
                 post_status p = st \<and> view_status (entry_post (result_for db p)) = st)
           \<and> (\<exists>rows. entry_interactions (result_for db p) = map interaction_row rows
                 \<and> (\<forall>i\<in>set rows. i \<in> set (post_interaction_table db)
                       \<and> interaction_post_id i = post_id p)))"
proof -
  from assms obtain org_uuid posts where
    org: "uuid_UUID org_id = Some org_uuid" and
    sel: "select_posts db org_uuid status (case limit_param of None \<Rightarrow> 20 | Some l \<Rightarrow> l)
            = Inr posts" and
    resp: "resp = \<lparr>resp_total = length posts, resp_results = map (result_for db) posts\<rparr>"
    by (rule get_analysis_results_Inr)
  note rows = select_posts_rows [OF sel]
  have "\<forall>p\<in>set posts.
           post_org_id p = org_uuid
           \<and> view_id (entry_post (result_for db p)) = post_id p
           \<and> (\<forall>st. status = Some st \<and> st \<noteq> [] \<longrightarrow>
                 post_status p = st \<and> view_status (entry_post (result_for db p)) = st)
           \<and> (\<exists>rows. entry_interactions (result_for db p) = map interaction_row rows
                 \<and> (\<forall>i\<in>set rows. i \<in> set (post_interaction_table db)
                       \<and> interaction_post_id i = post_id p))"
  proof
    fix p assume p: "p \<in> set posts"
    have "entry_interactions (result_for db p) = map interaction_row (select_interactions db p)
        \<and> (\<forall>i\<in>set (select_interactions db p). i \<in> set (post_interaction_table db)
              \<and> interaction_post_id i = post_id p)"
      by (simp add: result_for_interactions select_interactions_rows)
    then have "\<exists>rows. entry_interactions (result_for db p) = map interaction_row rows
        \<and> (\<forall>i\<in>set rows. i \<in> set (post_interaction_table db)
              \<and> interaction_post_id i = post_id p)" ..
    with p rows(2,3) show "post_org_id p = org_uuid
           \<and> view_id (entry_post (result_for db p)) = post_id p
           \<and> (\<forall>st. status = Some st \<and> st \<noteq> [] \<longrightarrow>
                 post_status p = st \<and> view_status (entry_post (result_for db p)) = st)
           \<and> (\<exists>rows. entry_interactions (result_for db p) = map interaction_row rows
                 \<and> (\<forall>i\<in>set rows. i \<in> set (post_interaction_table db)
                       \<and> interaction_post_id i = post_id p))"
      by (simp add: result_for_post)
  qed
  with org resp rows(1) show ?thesis by auto
qed

text \<open>
  C9. \<^verbatim>\<open>get_analysis_results\<close> returns at most \<^verbatim>\<open>limit\<close> posts, where \<^verbatim>\<open>limit\<close> is 20
  by default and never above 100, ordered by \<^verbatim>\<open>created_at\<close> descending; within each
  entry the interactions are ordered by score descending, \<^verbatim>\<open>leads_created\<close> is the number
  of the post's interactions with a non-null \<^verbatim>\<open>lead_id\<close> and \<^verbatim>\<open>high_value_count\<close> the
  number with classification \<^verbatim>\<open>high\<close>, counted in the response and in the table alike.
\<close>

theorem get_analysis_results_order_and_counts:
  assumes "get_analysis_results uuid_UUID db org_id limit_param status = Inr resp"
  defines "limit \<equiv> (case limit_param of None \<Rightarrow> 20 | Some l \<Rightarrow> l)"
  shows "int (length (resp_results resp)) \<le> limit \<and> limit \<le> 100
    \<and> resp_total resp = length (resp_results resp)
    \<and> (\<exists>posts. resp_results resp = map (result_for db) posts
          \<and> sorted_wrt (\<lambda>p q. post_created_at q \<le> post_created_at p) posts
          \<and> map (\<lambda>e. view_created_at (entry_post e)) (resp_results resp) =
              map (\<lambda>p. Some (post_created_at p)) posts
          \<and> (\<forall>p\<in>set posts.
                leads_created (result_for db p) =
                  length (filter (\<lambda>i. interaction_post_id i = post_id p \<and> lead_id i \<noteq> None)
                            (post_interaction_table db))
                \<and> high_value_count (result_for db p) =
                  length (filter (\<lambda>i. interaction_post_id i = post_id p \<and> classification i = ''high'')
                            (post_interaction_table db))))
    \<and> (\<forall>e\<in>set (resp_results resp).
          sorted_wrt (\<lambda>a b. iview_score b \<le> iview_score a) (entry_interactions e)
          \<and> leads_created e =
              length (filter (\<lambda>v. iview_lead_id v \<noteq> None) (entry_interactions e))
          \<and> high_value_count e =
              length (filter (\<lambda>v. iview_classification v = ''high'') (entry_interactions e)))"
proof -
  from assms(1) obtain org_uuid posts where
    cap: "limit \<le> 100" and
    sel: "select_posts db org_uuid status limit = Inr posts" and
    resp: "resp = \<lparr>resp_total = length posts, resp_results = map (result_for db) posts\<rparr>"
    unfolding limit_def by (rule get_analysis_results_Inr)
  note rows = select_posts_rows [OF sel]
  have size: "int (length (resp_results resp)) \<le> limit"
    using rows(4) by (simp add: resp)
  have total: "resp_total resp = length (resp_results resp)"
    by (simp add: resp)
  have table: "\<exists>posts. resp_results resp = map (result_for db) posts
          \<and> sorted_wrt (\<lambda>p q. post_created_at q \<le> post_created_at p) posts
          \<and> map (\<lambda>e. view_created_at (entry_post e)) (resp_results resp) =
              map (\<lambda>p. Some (post_created_at p)) posts
          \<and> (\<forall>p\<in>set posts.
                leads_created (result_for db p) =
                  length (filter (\<lambda>i. interaction_post_id i = post_id p \<and> lead_id i \<noteq> None)
                            (post_interaction_table db))
                \<and> high_value_count (result_for db p) =
                  length (filter (\<lambda>i. interaction_post_id i = post_id p \<and> classification i = ''high'')
                            (post_interaction_table db)))"
    using rows(5)
    by (intro exI [of _ posts])
      (simp add: resp result_for_post result_for_counts count_selected_interactions)
  have entry: "sorted_wrt (\<lambda>a b. iview_score b \<le> iview_score a)
            (entry_interactions (result_for db p))
          \<and> leads_created (result_for db p) =
              length (filter (\<lambda>v. iview_lead_id v \<noteq> None) (entry_interactions (result_for db p)))
          \<and> high_value_count (result_for db p) =
              length (filter (\<lambda>v. iview_classification v = ''high'')
                        (entry_interactions (result_for db p)))" for p
    using sorted_select_interactions [of db p]
    by (simp add: result_for_interactions result_for_counts sorted_wrt_map filter_map
        comp_def interaction_row_def)
  have views: "\<forall>e\<in>set (resp_results resp).
          sorted_wrt (\<lambda>a b. iview_score b \<le> iview_score a) (entry_interactions e)
          \<and> leads_created e =
              length (filter (\<lambda>v. iview_lead_id v \<noteq> None) (entry_interactions e))
          \<and> high_value_count e =
              length (filter (\<lambda>v. iview_classification v = ''high'') (entry_interactions e))"
    using entry by (auto simp: resp)
  from size cap total table views show ?thesis by blast
qed

lemma example_post_columns:
  "post_id (example_post n org st created) = UUID n"
  "post_org_id (example_post n org st created) = org"
  "post_status (example_post n org st created) = st"
  "post_created_at (example_post n org st created) = created"
  by (simp_all add: example_post_def)

lemma example_interaction_columns:
  "interaction_post_id (example_interaction n post score class lead) = UUID post"
  "relevance_score (example_interaction n post score class lead) = score"
  "classification (example_interaction n post score class lead) = class"
  "lead_id (example_interaction n post score class lead) = lead"
  by (simp_all add: example_interaction_def)

lemma example_interactions:
  "select_interactions example_db (example_post 11 (UUID 7) ''completed'' 200) =
     [example_interaction 21 11 90 ''high'' (Some (UUID 30)),
      example_interaction 20 11 40 ''low'' None]"
  by (simp add: select_interactions_def order_by_desc_def example_db_def
      example_post_columns example_interaction_columns)

theorem get_analysis_results_scoping_witness:
  "get_analysis_results example_uuid example_db ''00000000-0000-0000-0000-000000000007''
     None (Some ''completed'')
     = Inr \<lparr>resp_total = 1,
            resp_results = [result_for example_db (example_post 11 (UUID 7) ''completed'' 200)]\<rparr>
   \<and> (\<exists>org_uuid posts.
      example_uuid ''00000000-0000-0000-0000-000000000007'' = Some org_uuid
      \<and> [result_for example_db (example_post 11 (UUID 7) ''completed'' 200)] =
          map (result_for example_db) posts
      \<and> set posts \<subseteq> set (linkedin_post_table example_db)
      \<and> (\<forall>p\<in>set posts.
           post_org_id p = org_uuid
           \<and> view_id (entry_post (result_for example_db p)) = post_id p
           \<and> post_status p = ''completed''
           \<and> view_status (entry_post (result_for example_db p)) = ''completed''
           \<and> (\<exists>rows. entry_interactions (result_for example_db p) = map interaction_row rows
                 \<and> (\<forall>i\<in>set rows. i \<in> set (post_interaction_table example_db)
                       \<and> interaction_post_id i = post_id p))))"
proof -
  let ?resp = "\<lparr>resp_total = 1,
      resp_results = [result_for example_db (example_post 11 (UUID 7) ''completed'' 200)]\<rparr>"
  have returned:
    "get_analysis_results example_uuid example_db ''00000000-0000-0000-0000-000000000007''
       None (Some ''completed'') = Inr ?resp"
    by (simp add: get_analysis_results_def select_posts_def order_by_desc_def example_db_def
        example_uuid_def example_post_columns)
  from get_analysis_results_scoping [OF returned] returned
  show ?thesis by simp
qed

theorem get_analysis_results_order_and_counts_witness:
  "get_analysis_results example_uuid example_db ''00000000-0000-0000-0000-000000000007''
     (Some 5) (Some ''completed'')
     = Inr \<lparr>resp_total = 1,
            resp_results = [result_for example_db (example_post 11 (UUID 7) ''completed'' 200)]\<rparr>
   \<and> leads_created (result_for example_db (example_post 11 (UUID 7) ''completed'' 200)) = 1
   \<and> high_value_count (result_for example_db (example_post 11 (UUID 7) ''completed'' 200)) = 1
   \<and> sorted_wrt (\<lambda>a b. iview_score b \<le> iview_score a)
       (entry_interactions (result_for example_db (example_post 11 (UUID 7) ''completed'' 200)))"
proof -
  let ?entry = "result_for example_db (example_post 11 (UUID 7) ''completed'' 200)"
  let ?resp = "\<lparr>resp_total = 1, resp_results = [?entry]\<rparr>"
  have returned:
    "get_analysis_results example_uuid example_db ''00000000-0000-0000-0000-000000000007''
       (Some 5) (Some ''completed'') = Inr ?resp"
    by (simp add: get_analysis_results_def select_posts_def order_by_desc_def example_db_def
        example_uuid_def example_post_columns)
  have listed: "entry_interactions ?entry =
      [interaction_row (example_interaction 21 11 90 ''high'' (Some (UUID 30))),
       interaction_row (example_interaction 20 11 40 ''low'' None)]"
    by (simp add: result_for_interactions example_interactions)
  from get_analysis_results_order_and_counts [OF returned]
  have "sorted_wrt (\<lambda>a b. iview_score b \<le> iview_score a) (entry_interactions ?entry)
      \<and> leads_created ?entry =
          length (filter (\<lambda>v. iview_lead_id v \<noteq> None) (entry_interactions ?entry))
      \<and> high_value_count ?entry =
          length (filter (\<lambda>v. iview_classification v = ''high'') (entry_interactions ?entry))"
    by simp
  then have "sorted_wrt (\<lambda>a b. iview_score b \<le> iview_score a) (entry_interactions ?entry)
      \<and> leads_created ?entry = 1 \<and> high_value_count ?entry = 1"
    by (simp add: listed interaction_row_def example_interaction_columns)
  with returned show ?thesis by simp
qed

section \<open>Properties of the persistence step\<close>

lemma replaced_key: "key (if key r = key row then row else r) = key r"
  by simp

lemma upsert_keys:
  "map key (upsert key row table) =
     (if list_ex (\<lambda>r. key r = key row) table then map key table
      else map key table @ [key row])"
  by (simp add: upsert_def comp_def replaced_key)

lemma upsert_twice: "upsert key row (upsert key row table) = upsert key row table"
proof (cases "list_ex (\<lambda>r. key r = key row) table")
  case True
  then obtain r where r: "r \<in> set table" "key r = key row"
    by (auto simp: list_ex_iff)
  let ?f = "\<lambda>r. if key r = key row then row else r"
  from r(1) have "?f r \<in> ?f ` set table" by (rule imageI)
  then have "?f r \<in> set (map ?f table)" by (simp only: set_map)
  moreover from r(2) have "key (?f r) = key row" by simp
  ultimately have again: "list_ex (\<lambda>r. key r = key row) (map ?f table)"
    unfolding list_ex_iff by blast
  have "map ?f (map ?f table) = map ?f table"
    by (induction table) simp_all
  with True again show ?thesis
    by (simp only: upsert_def if_True)
next
  case False
  let ?f = "\<lambda>r. if key r = key row then row else r"
  from False have same: "map ?f table = table"
    by (induction table) simp_all
  have again: "list_ex (\<lambda>r. key r = key row) (table @ [row])"
    by simp
  have "upsert key row table = table @ [row]"
    using False by (simp only: upsert_def if_False)
  moreover have "upsert key row (table @ [row]) = map ?f (table @ [row])"
    using again by (simp only: upsert_def if_True)
  moreover have "map ?f (table @ [row]) = table @ [row]"
    using same by simp
  ultimately show ?thesis by simp
qed

text \<open>
  C1. Persisting a scored interaction is idempotent: persisting the same row twice, or any
  number of times more, leaves the table as persisting it once does. The number of rows
  does not grow, and a table with one row per key keeps one row per key.
\<close>

theorem upsert_idempotent:
  "upsert key row (upsert key row table) = upsert key row table
   \<and> (\<forall>n. ((upsert key row) ^^ Suc n) table = upsert key row table)
   \<and> length (upsert key row (upsert key row table)) = length (upsert key row table)
   \<and> (distinct (map key table) \<longrightarrow> distinct (map key (upsert key row table)))"
proof (intro conjI allI impI)
  show twice: "upsert key row (upsert key row table) = upsert key row table"
    by (rule upsert_twice)
  show "((upsert key row) ^^ Suc n) table = upsert key row table" for n
    by (induction n) (simp_all add: upsert_twice)
  show "length (upsert key row (upsert key row table)) = length (upsert key row table)"
    by (simp only: twice)
  show "distinct (map key (upsert key row table))" if "distinct (map key table)"
  proof (cases "list_ex (\<lambda>r. key r = key row) table")
    case True
    with that show ?thesis by (simp only: upsert_keys if_True)
  next
    case False
    then have "key row \<notin> set (map key table)"
      by (auto simp: list_ex_iff)
    with that False show ?thesis
      by (simp only: upsert_keys if_False distinct_append) simp
  qed
qed

theorem upsert_idempotent_witness:
  "distinct (map (\<lambda>i. (interaction_post_id i, actor_urn i))
     (upsert (\<lambda>i. (interaction_post_id i, actor_urn i))
        (example_interaction 23 11 90 ''high'' None)
        [example_interaction 20 11 40 ''low'' None,
         example_interaction 21 12 55 ''medium'' None]))"
  by (rule upsert_idempotent [THEN conjunct2, THEN conjunct2, THEN conjunct2, THEN mp])
    (simp add: example_interaction_def)

end
